theory Spec2Isabelle
  imports Complex_Main "HOL-Library.AList"
begin

section \<open>Values, errors and the log\<close>

text \<open>
  Bytes are characters; a byte string is a \<open>string\<close>.  A decoded JSON document is a
  \<open>json\<close> value (JSON numbers with a fraction or an exponent are outside the model).
  A JSON object is an association list read with \<open>map_of\<close>.
\<close>

type_synonym bytes = string

datatype json =
    JNull
  | JBool bool
  | JInt int
  | JStr string
  | JArr "json list"
  | JObj "(string \<times> json) list"

text \<open>The exceptions the backend can meet, one constructor per Python exception class.\<close>

datatype pyerr =
    JSONDecodeError
  | UnicodeDecodeError
  | AttributeError
  | TypeError
  | UnboundLocalError
  | SocketTimeout
  | ConnectionError
  | IsADirectoryError
  | FileNotFoundError
  | ValueError
  | OSError
  | ArchiveError
  | TransferIncomplete

text \<open>
  Keys of a Python dict: \<open>None\<close>, numbers (\<open>True\<close> and \<open>1\<close> are the same key) and
  strings are hashable; lists and dicts raise \<open>TypeError\<close>.
\<close>

datatype pykey = KNone | KInt int | KStr string

fun hash_key :: "json \<Rightarrow> pykey option" where
  "hash_key JNull = Some KNone"
| "hash_key (JBool b) = Some (KInt (if b then 1 else 0))"
| "hash_key (JInt n) = Some (KInt n)"
| "hash_key (JStr s) = Some (KStr s)"
| "hash_key (JArr xs) = None"
| "hash_key (JObj kvs) = None"

text \<open>Python truthiness, as used by \<open>if peer_nickname:\<close>.\<close>

fun truthy :: "json \<Rightarrow> bool" where
  "truthy JNull = False"
| "truthy (JBool b) = b"
| "truthy (JInt n) = (n \<noteq> 0)"
| "truthy (JStr s) = (s \<noteq> [])"
| "truthy (JArr xs) = (xs \<noteq> [])"
| "truthy (JObj kvs) = (kvs \<noteq> [])"

text \<open>\<open>d.get(k, default)\<close>: \<open>AttributeError\<close> when \<open>d\<close> is not a dict.\<close>

fun py_get :: "json \<Rightarrow> string \<Rightarrow> json \<Rightarrow> pyerr + json" where
  "py_get (JObj kvs) k dflt = Inr (case map_of kvs k of None \<Rightarrow> dflt | Some v \<Rightarrow> v)"
| "py_get _ k dflt = Inl AttributeError"

text \<open>\<open>d.get(k, default)\<close> and \<open>d[k]\<close> where \<open>d\<close> is known to be a dict holding \<open>k\<close>.\<close>

definition dict_get :: "json \<Rightarrow> string \<Rightarrow> json \<Rightarrow> json" where
  "dict_get d k dflt = (case py_get d k dflt of Inr v \<Rightarrow> v | Inl e \<Rightarrow> dflt)"

definition py_index :: "json \<Rightarrow> string \<Rightarrow> json" where
  "py_index d k = dict_get d k JNull"

text \<open>\<open>k in d\<close> for a decoded document known to be a dict.\<close>

fun py_has :: "json \<Rightarrow> string \<Rightarrow> bool" where
  "py_has (JObj kvs) k = (map_of kvs k \<noteq> None)"
| "py_has _ k = False"

section \<open>Configuration\<close>

definition BROADCAST_MAGIC :: string where
  "BROADCAST_MAGIC = ''c0d3-p2p-share-v1''"

definition PEER_TIMEOUT :: real where
  "PEER_TIMEOUT = 30"

definition BUFFER_SIZE :: nat where
  "BUFFER_SIZE = 16 * 1048576"

section \<open>Backend state\<close>

text \<open>
  One entry of \<open>self.peers\<close>.  \<open>time.time()\<close> is a real number of seconds; the model
  computes with it exactly.
\<close>

record peer_info =
  ip :: json
  last_seen :: real
  device_type :: json
  qr_connected :: bool

record transfer_entry =
  cancel :: bool
  socket :: nat

text \<open>
  Python dicts keep insertion order and hold each key once: an association list whose
  assignment is \<open>AList.update\<close> (in place for a known key, appended for a new one) and
  whose \<open>del\<close> is \<open>AList.delete\<close>.
\<close>

record backend =
  nickname :: string
  peers :: "(pykey \<times> peer_info) list"
  running :: bool
  active_transfers :: "(string \<times> transfer_entry) list"

text \<open>Every \<open>self.log\<close> call site of the backend, with the values it interpolates.\<close>

datatype logmsg =
    DiscoveredPeer json json json
  | PeerListenError pyerr
  | PeerTimedOut pykey
  | NoMetadataReceived
  | ReceivedMetadata json
  | InvalidJSONMetadata
  | DetectedQRHandshake
  | QRHandshakeAddedPeer json json
  | MissingRequiredFields
  | ReceivedSuccessfully string
  | FolderUnpacked string
  | ErrorUnpackingFolder
  | ReceiveFailed pyerr
  | PeerNotFound pykey
  | ItemNotFound string
  | ConnectingTo pykey json
  | TransferRejectedBy pykey
  | SentTo string pykey
  | ConnectionTimeoutSending pykey
  | SendFailed string pyerr
  | SentOurInfo
  | ReceivedPeerInfo json
  | QRConnectAddedPeer json json json
  | InvalidJSONFrom
  | QRConnectionTimedOut
  | QRConnectionHandlerError pyerr

section \<open>Discovery listener and eviction sweep\<close>

text \<open>
  One pass of the loop body of \<open>listen_for_peers\<close>.  \<open>recvfrom\<close> either times out or
  delivers a datagram; \<open>loads\<close> stands for \<open>json.loads(data.decode('utf-8'))\<close> and
  \<open>now\<close> for the reading of \<open>time.time()\<close>.
\<close>

datatype udp_event = RecvfromTimeout | Datagram bytes

text \<open>\<open>self.peers.get(peer_nickname, {}).get('qr_connected', False)\<close>\<close>

definition stored_qr_flag :: "(pykey \<times> peer_info) list \<Rightarrow> pykey \<Rightarrow> bool" where
  "stored_qr_flag ps k = (case map_of ps k of None \<Rightarrow> False | Some old \<Rightarrow> qr_connected old)"

definition listen_upsert ::
  "real \<Rightarrow> json \<Rightarrow> json \<Rightarrow> json \<Rightarrow> backend \<Rightarrow> pyerr + (backend \<times> logmsg list)" where
  "listen_upsert now peer_nickname peer_ip dev s =
     (case hash_key peer_nickname of
        None \<Rightarrow> Inl TypeError
      | Some k \<Rightarrow>
          let is_new = (map_of (peers s) k = None);
              entry = \<lparr>ip = peer_ip, last_seen = now, device_type = dev,
                       qr_connected = stored_qr_flag (peers s) k\<rparr>
          in Inr (s\<lparr>peers := AList.update k entry (peers s)\<rparr>,
                  if is_new then [DiscoveredPeer peer_nickname dev peer_ip] else []))"

definition listen_body ::
  "(bytes \<Rightarrow> pyerr + json) \<Rightarrow> real \<Rightarrow> bytes \<Rightarrow> backend \<Rightarrow> pyerr + (backend \<times> logmsg list)" where
  "listen_body loads now data s =
     (case loads data of
        Inl e \<Rightarrow> Inl e
      | Inr message \<Rightarrow>
          (case py_get message ''magic'' JNull of
             Inl e \<Rightarrow> Inl e
           | Inr magic \<Rightarrow>
               if magic = JStr BROADCAST_MAGIC then
                 (case py_get message ''nickname'' JNull of
                    Inl e \<Rightarrow> Inl e
                  | Inr peer_nickname \<Rightarrow>
                 (case py_get message ''ip'' JNull of
                    Inl e \<Rightarrow> Inl e
                  | Inr peer_ip \<Rightarrow>
                 (case py_get message ''device_type'' (JStr ''unknown'') of
                    Inl e \<Rightarrow> Inl e
                  | Inr dev \<Rightarrow>
                      if peer_nickname \<noteq> JStr (nickname s)
                      then listen_upsert now peer_nickname peer_ip dev s
                      else Inr (s, []))))
               else Inr (s, [])))"

definition listen_step ::
  "(bytes \<Rightarrow> pyerr + json) \<Rightarrow> real \<Rightarrow> udp_event \<Rightarrow> backend \<Rightarrow> backend \<times> logmsg list" where
  "listen_step loads now ev s =
     (case ev of
        RecvfromTimeout \<Rightarrow> (s, [])
      | Datagram data \<Rightarrow>
          (case listen_body loads now data s of
             Inr r \<Rightarrow> r
           | Inl SocketTimeout \<Rightarrow> (s, [])
           | Inl JSONDecodeError \<Rightarrow> (s, [])
           | Inl e \<Rightarrow> (s, if running s then [PeerListenError e] else [])))"


text \<open>One sweep of \<open>cleanup_stale_peers\<close> at clock reading \<open>current_time\<close>.\<close>

definition stale_peers :: "real \<Rightarrow> (pykey \<times> peer_info) list \<Rightarrow> pykey list" where
  "stale_peers current_time ps =
     map fst (filter (\<lambda>(nick, info). current_time - last_seen info > PEER_TIMEOUT
                                      \<and> \<not> qr_connected info) ps)"

definition cleanup_stale_peers :: "real \<Rightarrow> backend \<Rightarrow> backend \<times> logmsg list" where
  "cleanup_stale_peers current_time s =
     (let stale = stale_peers current_time (peers s)
      in (s\<lparr>peers := fold AList.delete stale (peers s)\<rparr>, map PeerTimedOut stale))"

definition get_peer_dict :: "backend \<Rightarrow> (pykey \<times> json) list" where
  "get_peer_dict s = map (\<lambda>(name, info). (name, ip info)) (peers s)"

section \<open>Connections and the filesystem\<close>

text \<open>
  A TCP connection as the handler sees it: what the peer will still deliver, in order
  (a data segment, or a failure of the read such as the socket timeout), and the
  failures the successive \<open>sendall\<close> calls will meet.  The end of \<open>incoming\<close> is
  the peer closing: \<open>recv\<close> then returns the empty byte string.
\<close>

datatype recv_event = Data bytes | RecvError pyerr

record conn =
  incoming :: "recv_event list"
  send_faults :: "pyerr option list"

text \<open>\<open>conn.recv(k)\<close> on the pending segments: at most \<open>k\<close> bytes of the first one.\<close>

fun recv :: "nat \<Rightarrow> recv_event list \<Rightarrow> pyerr + (bytes \<times> recv_event list)" where
  "recv k [] = Inr ([], [])"
| "recv k (RecvError e # rest) = Inl e"
| "recv k (Data bs # rest) =
     (if bs = [] then recv k rest
      else Inr (take k bs, if drop k bs = [] then rest else Data (drop k bs) # rest))"

fun pending :: "recv_event list \<Rightarrow> nat" where
  "pending [] = 0"
| "pending (RecvError e # rest) = Suc (pending rest)"
| "pending (Data bs # rest) = Suc (length bs + pending rest)"

text \<open>Files and directories by path; paths are compared as strings.\<close>

datatype fsnode = File bytes | Dir

type_synonym filesystem = "string \<Rightarrow> fsnode option"

text \<open>
  \<open>open(p, 'wb')\<close>.  Python refuses a path with a NUL byte (\<open>ValueError\<close>) and the
  empty path; a directory cannot be opened for writing.  Every other refusal (a name
  that is too long or cannot be encoded, a missing parent directory, missing
  permission, no space left) is the verdict \<open>fault\<close> of the operating system on this
  filesystem and path.  When nothing refuses, the file exists and is empty.
\<close>

definition open_wb ::
  "(filesystem \<Rightarrow> string \<Rightarrow> pyerr option) \<Rightarrow> filesystem \<Rightarrow> string \<Rightarrow> pyerr + filesystem" where
  "open_wb fault fs p =
     (if CHR 0x00 \<in> set p then Inl ValueError
      else if p = [] then Inl FileNotFoundError
      else (case fault fs p of
              Some e \<Rightarrow> Inl e
            | None \<Rightarrow>
                (case fs p of Some Dir \<Rightarrow> Inl IsADirectoryError
                            | _ \<Rightarrow> Inr (fs(p \<mapsto> File [])))))"

definition os_path_exists :: "filesystem \<Rightarrow> string \<Rightarrow> bool" where
  "os_path_exists fs p = (fs p \<noteq> None)"

definition os_remove :: "filesystem \<Rightarrow> string \<Rightarrow> pyerr + filesystem" where
  "os_remove fs p = (case fs p of None \<Rightarrow> Inl FileNotFoundError
                                | Some Dir \<Rightarrow> Inl IsADirectoryError
                                | Some (File bs) \<Rightarrow> Inr (fs(p := None)))"

text \<open>\<open>os.path.basename\<close> and \<open>os.path.join\<close> of two components, as \<open>posixpath\<close> has them.\<close>

definition os_path_basename :: "string \<Rightarrow> string" where
  "os_path_basename p = rev (takeWhile (\<lambda>c. c \<noteq> CHR ''/'') (rev p))"

definition os_path_join :: "string \<Rightarrow> string \<Rightarrow> string" where
  "os_path_join a b =
     (if b \<noteq> [] \<and> hd b = CHR ''/'' then b
      else if a = [] \<or> last a = CHR ''/'' then a @ b
      else a @ ''/'' @ b)"

text \<open>
  What the handlers take from outside the backend: the library calls
  \<open>json.loads(b.decode('utf-8'))\<close>, \<open>json.loads(b.decode('utf-8').strip())\<close>,
  \<open>json.dumps\<close>, \<open>shutil.unpack_archive\<close> and \<open>shutil.make_archive\<close>, the
  directories fixed at start-up, the address \<open>get_local_ip\<close> finds, the answer the
  user gives to a transfer request, and the operating system's refusals to open a
  file for writing.
\<close>

record env =
  loads :: "bytes \<Rightarrow> pyerr + json"
  loads_stripped :: "bytes \<Rightarrow> pyerr + json"
  dumps :: "json \<Rightarrow> string"
  DOWNLOAD_DIR :: string
  SHARE_DIR :: string
  TEMP_DIR :: string
  local_ip :: string
  user_accepts :: "json \<Rightarrow> bool"
  unpack_archive :: "string \<Rightarrow> string \<Rightarrow> filesystem \<Rightarrow> pyerr option \<times> filesystem"
  make_archive :: "string \<Rightarrow> string \<Rightarrow> filesystem \<Rightarrow> pyerr + bytes"
  open_fault :: "filesystem \<Rightarrow> string \<Rightarrow> pyerr option"

text \<open>What a handler does that the outside can see, in order.\<close>

datatype event =
    Log logmsg
  | Sent bytes
  | TransferRequest json
  | ReceiveActive bool
  | Wrote string bytes
  | ReceiveCompleted string
  | SendActive bool
  | Connected json
  | SendCompleted string

record world =
  st :: backend
  files :: filesystem
  sock :: conn
  filepath :: string
  trace :: "event list"

definition emit :: "event \<Rightarrow> world \<Rightarrow> world" where
  "emit e w = w\<lparr>trace := trace w @ [e]\<rparr>"

definition sendall :: "bytes \<Rightarrow> world \<Rightarrow> pyerr + world" where
  "sendall bs w =
     (case send_faults (sock w) of
        Some e # rest \<Rightarrow> Inl e
      | None # rest \<Rightarrow> Inr (emit (Sent bs) (w\<lparr>sock := (sock w)\<lparr>send_faults := rest\<rparr>\<rparr>))
      | [] \<Rightarrow> Inr (emit (Sent bs) w))"

section \<open>File transfer server: one inbound connection\<close>

text \<open>
  The header loop of \<open>handle_item_receive\<close>: reads of at most 1024 bytes are
  accumulated in \<open>metadata_bytes\<close> until a newline shows up.  The loop also ends when
  \<open>recv\<close> returns nothing or \<open>self.running\<close> is false; \<open>remaining_data\<close> is then
  never assigned.
\<close>

abbreviation NL :: char where
  "NL \<equiv> CHR 0x0A"

text \<open>The two decision tokens, \<open>b'ACCEPT\n'\<close> and \<open>b'REJECT\n'\<close>.\<close>

definition ACCEPT_LINE :: bytes where
  "ACCEPT_LINE = ''ACCEPT'' @ [NL]"

definition REJECT_LINE :: bytes where
  "REJECT_LINE = ''REJECT'' @ [NL]"

datatype header_read =
    HeaderError pyerr
  | HeaderUnterminated bytes
  | HeaderSplit bytes bytes

lemma recv_pending:
  "recv k c = Inr (chunk, c') \<Longrightarrow> chunk \<noteq> [] \<Longrightarrow> pending c' < pending c"
proof (induction k c rule: recv.induct)
  case (3 k bs rest)
  then show ?case
    by (cases "bs = []") (auto split: if_splits)
qed auto

function read_header ::
  "bool \<Rightarrow> bytes \<Rightarrow> recv_event list \<Rightarrow> header_read \<times> recv_event list" where
  "read_header run metadata_bytes c =
     (if \<not> run then (HeaderUnterminated metadata_bytes, c)
      else
        (case recv 1024 c of
           Inl e \<Rightarrow> (HeaderError e, c)
         | Inr (chunk, c') \<Rightarrow>
             if chunk = [] then (HeaderUnterminated metadata_bytes, c')
             else if NL \<in> set (metadata_bytes @ chunk)
             then (HeaderSplit (takeWhile (\<lambda>b. b \<noteq> NL) (metadata_bytes @ chunk))
                               (tl (dropWhile (\<lambda>b. b \<noteq> NL) (metadata_bytes @ chunk))), c')
             else read_header run (metadata_bytes @ chunk) c'))"
  by pat_completeness auto
termination
  by (relation "measure (\<lambda>(run, mb, c). pending c)") (auto dest: recv_pending)

declare read_header.simps [simp del]

text \<open>
  The payload loop.  \<open>filesize\<close> is whatever the header declared: comparing a number
  with a value that is not one raises \<open>TypeError\<close>.
\<close>

fun as_int :: "json \<Rightarrow> int option" where
  "as_int (JInt n) = Some n"
| "as_int (JBool b) = Some (if b then 1 else 0)"
| "as_int _ = None"

function receive_loop ::
  "json \<Rightarrow> bytes \<Rightarrow> int \<Rightarrow> recv_event list \<Rightarrow> pyerr option \<times> bytes \<times> int \<times> recv_event list" where
  "receive_loop filesize written received_bytes c =
     (case as_int filesize of
        None \<Rightarrow> (Some TypeError, written, received_bytes, c)
      | Some n \<Rightarrow>
          if received_bytes < n then
            (case recv (min BUFFER_SIZE (nat (n - received_bytes))) c of
               Inl e \<Rightarrow> (Some e, written, received_bytes, c)
             | Inr (bytes_read, c') \<Rightarrow>
                 if bytes_read = [] then (None, written, received_bytes, c')
                 else receive_loop filesize (written @ bytes_read)
                        (received_bytes + int (length bytes_read)) c')
          else (None, written, received_bytes, c))"
  by pat_completeness auto
termination
  by (relation "measure (\<lambda>(fsz, wr, rb, c). pending c)") (auto dest: recv_pending)

declare receive_loop.simps [simp del]

text \<open>\<open>os.path.basename(metadata['filename'])\<close>: a \<open>TypeError\<close> unless it is a string.\<close>

fun basename_of :: "json \<Rightarrow> pyerr + string" where
  "basename_of (JStr f) = Inr (os_path_basename f)"
| "basename_of _ = Inl TypeError"

text \<open>
  After a complete receipt of a directory: unpack, log either way, and remove the
  archive in the \<open>finally\<close> clause (a failing \<open>os.remove\<close> escapes).
\<close>

definition unpack_received :: "env \<Rightarrow> string \<Rightarrow> world \<Rightarrow> pyerr option \<times> world" where
  "unpack_received E filename w =
     (case unpack_archive E (filepath w) (DOWNLOAD_DIR E) (files w) of
        (err, fs1) \<Rightarrow>
          (if os_path_exists fs1 (filepath w) then
             (case os_remove fs1 (filepath w) of
                Inl e \<Rightarrow>
                  (Some e, emit (Log (case err of None \<Rightarrow> FolderUnpacked filename
                                               | Some e' \<Rightarrow> ErrorUnpackingFolder))
                             (w\<lparr>files := fs1\<rparr>))
              | Inr fs2 \<Rightarrow>
                  (None, emit (Log (case err of None \<Rightarrow> FolderUnpacked filename
                                              | Some e' \<Rightarrow> ErrorUnpackingFolder))
                           (w\<lparr>files := fs2\<rparr>)))
           else (None, emit (Log (case err of None \<Rightarrow> FolderUnpacked filename
                                            | Some e' \<Rightarrow> ErrorUnpackingFolder))
                         (w\<lparr>files := fs1\<rparr>))))"

text \<open>
  Lines 290 to 310, the body of \<open>with open(filepath, 'wb') as f\<close>, entered with the
  filesystem \<open>fs1\<close> that \<open>open\<close> left.  \<open>remaining_data\<close> is \<open>None\<close> when the header
  loop never assigned it.  What was written is in the file when the block is left,
  also when it is left by an exception.  The result carries \<open>received_bytes\<close>.
\<close>

definition receive_file ::
  "json \<Rightarrow> bytes option \<Rightarrow> filesystem \<Rightarrow> world \<Rightarrow> pyerr option \<times> int \<times> world" where
  "receive_file filesize remaining_data fs1 w =
     (case remaining_data of
        None \<Rightarrow> (Some UnboundLocalError, 0, emit (Wrote (filepath w) []) (w\<lparr>files := fs1\<rparr>))
      | Some rd \<Rightarrow>
          (case receive_loop filesize rd (int (length rd)) (incoming (sock w)) of
             (err, written, received_bytes, c') \<Rightarrow>
               (err, received_bytes,
                emit (Wrote (filepath w) written)
                  (w\<lparr>files := fs1(filepath w \<mapsto> File written),
                     sock := (sock w)\<lparr>incoming := c'\<rparr>\<rparr>))))"

text \<open>Lines 312 to 325: completion, or \<open>IOError("File transfer incomplete.")\<close>.\<close>

definition receive_complete ::
  "env \<Rightarrow> string \<Rightarrow> json \<Rightarrow> json \<Rightarrow> int \<Rightarrow> world \<Rightarrow> pyerr option \<times> world" where
  "receive_complete E filename filesize item_type received_bytes w =
     (if as_int filesize = Some received_bytes then
        (if item_type = JStr ''directory''
         then unpack_received E filename
                (emit (Log (ReceivedSuccessfully filename)) (emit (ReceiveCompleted filename) w))
         else (None, emit (Log (ReceivedSuccessfully filename))
                       (emit (ReceiveCompleted filename) w)))
      else (Some TransferIncomplete, w))"

text \<open>
  Lines 279 to 325: the transfer was accepted.  The result is the exception that
  escapes, if any.
\<close>

definition receive_accepted ::
  "env \<Rightarrow> json \<Rightarrow> bytes option \<Rightarrow> world \<Rightarrow> pyerr option \<times> world" where
  "receive_accepted E metadata remaining_data w0 =
     (case sendall ACCEPT_LINE w0 of
        Inl e \<Rightarrow> (Some e, w0)
      | Inr w1 \<Rightarrow>
          (case basename_of (py_index metadata ''filename'') of
             Inl e \<Rightarrow> (Some e, emit (ReceiveActive True) w1)
           | Inr filename \<Rightarrow>
               (case open_wb (open_fault E) (files w1)
                       (os_path_join (DOWNLOAD_DIR E) filename) of
                  Inl e \<Rightarrow>
                    (Some e, (emit (ReceiveActive True) w1)
                               \<lparr>filepath := os_path_join (DOWNLOAD_DIR E) filename\<rparr>)
                | Inr fs1 \<Rightarrow>
                    (case receive_file (py_index metadata ''filesize'') remaining_data fs1
                            ((emit (ReceiveActive True) w1)
                               \<lparr>filepath := os_path_join (DOWNLOAD_DIR E) filename\<rparr>) of
                       (Some e, received_bytes, w2) \<Rightarrow> (Some e, w2)
                     | (None, received_bytes, w2) \<Rightarrow>
                         receive_complete E filename (py_index metadata ''filesize'')
                           (dict_get metadata ''type'' (JStr ''file'')) received_bytes w2))))"

text \<open>
  Lines 241 to 264: a header of type \<open>qr_handshake\<close> on the file-transfer port.
  \<open>addr\<close> is the peer's address, \<open>now\<close> the reading of \<open>time.time()\<close>.
\<close>

definition qr_handshake_response :: "env \<Rightarrow> backend \<Rightarrow> json" where
  "qr_handshake_response E s =
     JObj [(''type'', JStr ''qr_handshake_response''),
           (''nickname'', JStr (nickname s)),
           (''ip'', JStr (local_ip E)),
           (''device_type'', JStr ''desktop''),
           (''status'', JStr ''connected'')]"

definition qr_handshake_entry :: "real \<Rightarrow> string \<Rightarrow> json \<Rightarrow> peer_info" where
  "qr_handshake_entry now addr metadata =
     \<lparr>ip = JStr addr, last_seen = now + 300,
      device_type = dict_get metadata ''device_type'' (JStr ''android''),
      qr_connected = True\<rparr>"

definition qr_handshake_branch ::
  "env \<Rightarrow> real \<Rightarrow> string \<Rightarrow> json \<Rightarrow> world \<Rightarrow> pyerr option \<times> world" where
  "qr_handshake_branch E now addr metadata w0 =
     (if truthy (dict_get metadata ''nickname'' JNull) then
        (case hash_key (dict_get metadata ''nickname'' JNull) of
           None \<Rightarrow> (Some TypeError, emit (Log DetectedQRHandshake) w0)
         | Some k \<Rightarrow>
             (case sendall (dumps E (qr_handshake_response E (st w0)) @ [NL])
                     (emit (Log (QRHandshakeAddedPeer (dict_get metadata ''nickname'' JNull)
                                   (dict_get metadata ''device_type'' (JStr ''android''))))
                        ((emit (Log DetectedQRHandshake) w0)
                           \<lparr>st := (st w0)\<lparr>peers :=
                                      AList.update k (qr_handshake_entry now addr metadata)
                                        (peers (st w0))\<rparr>\<rparr>)) of
                Inl e \<Rightarrow>
                  (Some e,
                   emit (Log (QRHandshakeAddedPeer (dict_get metadata ''nickname'' JNull)
                                (dict_get metadata ''device_type'' (JStr ''android''))))
                     ((emit (Log DetectedQRHandshake) w0)
                        \<lparr>st := (st w0)\<lparr>peers :=
                                   AList.update k (qr_handshake_entry now addr metadata)
                                     (peers (st w0))\<rparr>\<rparr>))
              | Inr w1 \<Rightarrow> (None, w1)))
      else (None, emit (Log DetectedQRHandshake) w0))"

text \<open>
  Lines 266 to 325: a transfer request.  The user's answer is awaited; a rejection is
  answered with \<open>REJECT\<close>.
\<close>

definition receive_request ::
  "env \<Rightarrow> json \<Rightarrow> bytes option \<Rightarrow> world \<Rightarrow> pyerr option \<times> world" where
  "receive_request E metadata remaining_data w =
     (if \<not> py_has metadata ''filename'' \<or> \<not> py_has metadata ''filesize''
      then (None, emit (Log MissingRequiredFields) w)
      else if \<not> user_accepts E metadata then
        (case sendall REJECT_LINE (emit (TransferRequest metadata) w) of
           Inl e \<Rightarrow> (Some e, emit (TransferRequest metadata) w)
         | Inr w' \<Rightarrow> (None, w'))
      else receive_accepted E metadata remaining_data (emit (TransferRequest metadata) w))"

text \<open>
  Lines 230 to 264: the header bytes are decoded and the connection is dispatched.
  \<open>JSONDecodeError\<close> is caught here; any other exception escapes.
\<close>

definition receive_metadata ::
  "env \<Rightarrow> real \<Rightarrow> string \<Rightarrow> bytes \<Rightarrow> bytes option \<Rightarrow> world \<Rightarrow> pyerr option \<times> world" where
  "receive_metadata E now addr metadata_bytes remaining_data w =
     (if metadata_bytes = [] then (None, emit (Log NoMetadataReceived) w)
      else
        (case loads E metadata_bytes of
           Inl e \<Rightarrow>
             if e = JSONDecodeError then (None, emit (Log InvalidJSONMetadata) w)
             else (Some e, w)
         | Inr metadata \<Rightarrow>
             (case py_get metadata ''type'' JNull of
                Inl e \<Rightarrow> (Some e, emit (Log (ReceivedMetadata metadata)) w)
              | Inr ty \<Rightarrow>
                  if ty = JStr ''qr_handshake''
                  then qr_handshake_branch E now addr metadata
                         (emit (Log (ReceivedMetadata metadata)) w)
                  else receive_request E metadata remaining_data
                         (emit (Log (ReceivedMetadata metadata)) w))))"

text \<open>
  Lines 216 to 325, the body of the \<open>try\<close>: the result is the exception that reaches
  the \<open>except Exception\<close> clause, if any.
\<close>

definition receive_body :: "env \<Rightarrow> real \<Rightarrow> string \<Rightarrow> world \<Rightarrow> pyerr option \<times> world" where
  "receive_body E now addr w =
     (case read_header (running (st w)) [] (incoming (sock w)) of
        (HeaderError e, c) \<Rightarrow> (Some e, w\<lparr>sock := (sock w)\<lparr>incoming := c\<rparr>\<rparr>)
      | (HeaderUnterminated mb, c) \<Rightarrow>
          receive_metadata E now addr mb None (w\<lparr>sock := (sock w)\<lparr>incoming := c\<rparr>\<rparr>)
      | (HeaderSplit mb rd, c) \<Rightarrow>
          receive_metadata E now addr mb (Some rd) (w\<lparr>sock := (sock w)\<lparr>incoming := c\<rparr>\<rparr>))"

text \<open>The \<open>except Exception\<close> clause: log, and remove the destination if it exists.\<close>

definition receive_except :: "pyerr \<Rightarrow> world \<Rightarrow> world" where
  "receive_except e w =
     (if filepath w \<noteq> [] \<and> os_path_exists (files w) (filepath w) then
        (case os_remove (files w) (filepath w) of
           Inl e' \<Rightarrow> emit (Log (ReceiveFailed e)) w
         | Inr fs' \<Rightarrow> (emit (Log (ReceiveFailed e)) w)\<lparr>files := fs'\<rparr>)
      else emit (Log (ReceiveFailed e)) w)"

text \<open>
  The whole handler: the transfer is registered under the generated identifier, the
  body runs under \<open>try\<close>, and the \<open>finally\<close> clause drops the registration.
\<close>

definition register_transfer :: "string \<Rightarrow> nat \<Rightarrow> world \<Rightarrow> world" where
  "register_transfer transfer_id handle w =
     w\<lparr>st := (st w)\<lparr>active_transfers :=
                       AList.update transfer_id \<lparr>cancel = False, socket = handle\<rparr>
                         (active_transfers (st w))\<rparr>,
       filepath := []\<rparr>"

definition receive_try :: "env \<Rightarrow> real \<Rightarrow> string \<Rightarrow> world \<Rightarrow> world" where
  "receive_try E now addr w =
     (case receive_body E now addr w of
        (None, w') \<Rightarrow> w'
      | (Some e, w') \<Rightarrow> receive_except e w')"

definition receive_finally :: "string \<Rightarrow> world \<Rightarrow> world" where
  "receive_finally transfer_id w =
     emit (ReceiveActive False)
       (w\<lparr>st := (st w)\<lparr>active_transfers :=
                         AList.delete transfer_id (active_transfers (st w))\<rparr>\<rparr>)"

definition handle_item_receive ::
  "env \<Rightarrow> real \<Rightarrow> string \<Rightarrow> nat \<Rightarrow> string \<Rightarrow> world \<Rightarrow> world" where
  "handle_item_receive E now transfer_id handle addr w =
     receive_finally transfer_id
       (receive_try E now addr (register_transfer transfer_id handle w))"

section \<open>QR pairing listener: one accepted connection\<close>








section \<open>File transfer client\<close>

text \<open>\<open>readline()\<close> on the reply stream, and \<open>bytes.strip()\<close> of ASCII whitespace.\<close>

fun readline :: "recv_event list \<Rightarrow> pyerr + bytes" where
  "readline [] = Inr []"
| "readline (RecvError e # rest) = Inl e"
| "readline (Data bs # rest) =
     (if NL \<in> set bs then Inr (takeWhile (\<lambda>b. b \<noteq> NL) bs @ [NL])
      else (case readline rest of Inl e \<Rightarrow> Inl e | Inr l \<Rightarrow> Inr (bs @ l)))"

definition is_space :: "char \<Rightarrow> bool" where
  "is_space c = (c \<in> set [CHR '' '', CHR 0x09, CHR 0x0A, CHR 0x0D, CHR 0x0B, CHR 0x0C])"

definition bytes_strip :: "bytes \<Rightarrow> bytes" where
  "bytes_strip bs = rev (dropWhile is_space (rev (dropWhile is_space bs)))"

text \<open>The file is read and sent in pieces of \<open>BUFFER_SIZE\<close> bytes.\<close>

function read_chunks :: "nat \<Rightarrow> bytes \<Rightarrow> bytes list" where
  "read_chunks n bs = (if bs = [] \<or> n = 0 then [] else take n bs # read_chunks n (drop n bs))"
  by pat_completeness auto
termination
  by (relation "measure (\<lambda>(n, bs). length bs)") auto

declare read_chunks.simps [simp del]

fun send_chunks :: "bytes list \<Rightarrow> world \<Rightarrow> pyerr + world" where
  "send_chunks [] w = Inr w"
| "send_chunks (bytes_read # pieces) w =
     (case sendall bytes_read w of Inl e \<Rightarrow> Inl e | Inr w' \<Rightarrow> send_chunks pieces w')"

text \<open>
  Lines 364 to 404 of \<open>send_item\<close>: the item to send is the file at
  \<open>filepath_to_send\<close>.  \<open>connect_fault\<close> is the failure \<open>connect\<close> meets, if any.
  The result tells whether an exception escapes to the \<open>except\<close> clauses.
\<close>

definition send_metadata :: "backend \<Rightarrow> string \<Rightarrow> nat \<Rightarrow> string \<Rightarrow> json" where
  "send_metadata s filename filesize item_type =
     JObj [(''filename'', JStr filename),
           (''filesize'', JInt (int filesize)),
           (''type'', JStr item_type),
           (''sender_nickname'', JStr (nickname s))]"

definition send_connection ::
  "env \<Rightarrow> pyerr option \<Rightarrow> pykey \<Rightarrow> json \<Rightarrow> string \<Rightarrow> string \<Rightarrow> string \<Rightarrow> world
     \<Rightarrow> pyerr option \<times> world" where
  "send_connection E connect_fault peer_nickname peer_ip item_name filepath_to_send item_type w0 =
     (case files w0 filepath_to_send of
        None \<Rightarrow> (Some FileNotFoundError, w0)
      | Some Dir \<Rightarrow> (Some IsADirectoryError, w0)
      | Some (File content) \<Rightarrow>
     (let metadata = send_metadata (st w0) (os_path_basename filepath_to_send)
                       (length content) item_type;
          w1 = emit (Log (ConnectingTo peer_nickname peer_ip)) w0
      in case (case peer_ip of JStr a \<Rightarrow> connect_fault | _ \<Rightarrow> Some TypeError) of
           Some e \<Rightarrow> (Some e, w1)
         | None \<Rightarrow>
     (let w2 = emit (Connected peer_ip) w1 in
      case sendall (dumps E metadata @ [NL]) w2 of
        Inl e \<Rightarrow> (Some e, w2)
      | Inr w3 \<Rightarrow>
     (case readline (incoming (sock w3)) of
        Inl e \<Rightarrow> (Some e, w3)
      | Inr response \<Rightarrow>
          if bytes_strip response \<noteq> ''ACCEPT''
          then (None, emit (Log (TransferRejectedBy peer_nickname)) w3)
          else
            (case send_chunks (read_chunks BUFFER_SIZE content) (emit (SendActive True) w3) of
               Inl e \<Rightarrow> (Some e, emit (SendActive True) w3)
             | Inr w4 \<Rightarrow>
                 (None, emit (Log (SentTo item_name peer_nickname))
                          (emit (SendCompleted item_name) w4)))))))"

text \<open>
  \<open>send_item\<close>.  A directory is packed into \<open>TEMP_DIR/item_name.zip\<close> first; the
  \<open>finally\<close> clause removes the archive again.
\<close>

definition send_finally :: "string option \<Rightarrow> world \<Rightarrow> world" where
  "send_finally temp_zip_path w =
     emit (SendActive False)
       (case temp_zip_path of
          None \<Rightarrow> w
        | Some p \<Rightarrow>
            if os_path_exists (files w) p then
              (case os_remove (files w) p of Inl e \<Rightarrow> w | Inr fs' \<Rightarrow> w\<lparr>files := fs'\<rparr>)
            else w)"

definition send_except :: "pykey \<Rightarrow> string \<Rightarrow> pyerr option \<times> world \<Rightarrow> world" where
  "send_except peer_nickname item_name r =
     (case r of
        (None, w) \<Rightarrow> w
      | (Some e, w) \<Rightarrow>
          if e = SocketTimeout then emit (Log (ConnectionTimeoutSending peer_nickname)) w
          else emit (Log (SendFailed item_name e)) w)"

definition send_item :: "env \<Rightarrow> pyerr option \<Rightarrow> pykey \<Rightarrow> string \<Rightarrow> world \<Rightarrow> world" where
  "send_item E connect_fault peer_nickname item_name w =
     (case map_of (get_peer_dict (st w)) peer_nickname of
        None \<Rightarrow> emit (Log (PeerNotFound peer_nickname)) w
      | Some peer_ip \<Rightarrow>
     (let item_path = os_path_join (SHARE_DIR E) item_name in
      if \<not> os_path_exists (files w) item_path then emit (Log (ItemNotFound item_name)) w
      else if files w item_path = Some Dir then
        (case make_archive E (SHARE_DIR E) item_name (files w) of
           Inl e \<Rightarrow> send_finally None (send_except peer_nickname item_name (Some e, w))
         | Inr archive \<Rightarrow>
             (let temp_zip_path = os_path_join (TEMP_DIR E) item_name @ ''.zip'';
                  w1 = w\<lparr>files := (files w)(temp_zip_path \<mapsto> File archive)\<rparr>
              in send_finally (Some temp_zip_path)
                   (send_except peer_nickname item_name
                      (send_connection E connect_fault peer_nickname peer_ip item_name
                         temp_zip_path ''directory'' w1))))
      else
        send_finally None
          (send_except peer_nickname item_name
             (send_connection E connect_fault peer_nickname peer_ip item_name
                item_path ''file'' w))))"

section \<open>Byte streams and example inputs used in the statements\<close>

text \<open>
  The bytes a connection delivers before its first failing read, and the connections
  that deliver data until the peer closes.
\<close>

fun stream :: "recv_event list \<Rightarrow> bytes" where
  "stream [] = []"
| "stream (Data bs # rest) = bs @ stream rest"
| "stream (RecvError e # rest) = []"

fun only_data :: "recv_event list \<Rightarrow> bool" where
  "only_data [] = True"
| "only_data (Data bs # rest) = only_data rest"
| "only_data (RecvError e # rest) = False"

text \<open>The first line of a byte stream, with its newline; the whole stream if it has none.\<close>

definition first_line :: "bytes \<Rightarrow> bytes" where
  "first_line bs = (if NL \<in> set bs then takeWhile (\<lambda>b. b \<noteq> NL) bs @ [NL] else bs)"

text \<open>Example registry: a stale peer, a stale but pinned peer, and a fresh one.\<close>

definition example_backend :: backend where
  "example_backend =
     \<lparr>nickname = ''me'',
      peers = [(KStr ''old'', \<lparr>ip = JStr ''10.0.0.2'', last_seen = 10,
                               device_type = JStr ''desktop'', qr_connected = False\<rparr>),
               (KStr ''paired'', \<lparr>ip = JStr ''10.0.0.3'', last_seen = 10,
                                  device_type = JStr ''android'', qr_connected = True\<rparr>),
               (KStr ''fresh'', \<lparr>ip = JStr ''10.0.0.4'', last_seen = 90,
                                 device_type = JStr ''desktop'', qr_connected = False\<rparr>)],
      running = True,
      active_transfers = []\<rparr>"

text \<open>
  Example decoder: it knows six datagram payloads (announcements of the peers
  \<open>paired\<close> and \<open>old\<close> and of an unknown peer \<open>new\<close>, one with a foreign magic
  string, our own announcement, and an announcement without a nickname) and rejects
  everything else as undecodable.
\<close>

definition example_loads :: "bytes \<Rightarrow> pyerr + json" where
  "example_loads b =
     (if b = ''announce-paired'' then
        Inr (JObj [(''magic'', JStr BROADCAST_MAGIC), (''nickname'', JStr ''paired''),
                   (''ip'', JStr ''10.0.0.9''), (''device_type'', JStr ''desktop'')])
      else if b = ''foreign'' then
        Inr (JObj [(''magic'', JStr ''other-app''), (''nickname'', JStr ''x'')])
      else if b = ''announce-me'' then
        Inr (JObj [(''magic'', JStr BROADCAST_MAGIC), (''nickname'', JStr ''me''),
                   (''ip'', JStr ''10.0.0.1''), (''device_type'', JStr ''desktop'')])
      else if b = ''announce-old'' then
        Inr (JObj [(''magic'', JStr BROADCAST_MAGIC), (''nickname'', JStr ''old''),
                   (''ip'', JStr ''10.0.0.8''), (''device_type'', JStr ''laptop'')])
      else if b = ''announce-new'' then
        Inr (JObj [(''magic'', JStr BROADCAST_MAGIC), (''nickname'', JStr ''new''),
                   (''ip'', JStr ''10.0.0.6''), (''device_type'', JStr ''tablet'')])
      else if b = ''announce-nameless'' then
        Inr (JObj [(''magic'', JStr BROADCAST_MAGIC), (''ip'', JStr ''10.0.0.7'')])
      else Inl JSONDecodeError)"

text \<open>
  Example transfer: a header announcing the file \<open>../up/a.txt\<close> of five bytes, a
  pairing identity, a decoder that knows these two documents, a receiver that accepts
  every request, and an operating system that refuses names of more than 255 bytes.
\<close>

definition example_header :: bytes where
  "example_header = ''{a.txt,5}''"

definition example_metadata :: json where
  "example_metadata =
     JObj [(''filename'', JStr ''../up/a.txt''), (''filesize'', JInt 5),
           (''type'', JStr ''file''), (''sender_nickname'', JStr ''X'')]"

definition example_identity :: json where
  "example_identity = JObj [(''nickname'', JStr ''phone''), (''device_type'', JStr ''android'')]"

definition example_decode :: "bytes \<Rightarrow> pyerr + json" where
  "example_decode b =
     (if b = example_header then Inr example_metadata
      else if b = ''{phone}'' then Inr example_identity
      else Inl JSONDecodeError)"

definition example_env :: env where
  "example_env =
     \<lparr>loads = example_decode,
      loads_stripped = (\<lambda>b. example_decode (bytes_strip b)),
      dumps = (\<lambda>j. ''{json}''),
      DOWNLOAD_DIR = ''/app/downloads'', SHARE_DIR = ''/app/sharable'', TEMP_DIR = ''/tmp'',
      local_ip = ''10.0.0.1'',
      user_accepts = (\<lambda>metadata. True),
      unpack_archive = (\<lambda>p d fs. (None, fs)),
      make_archive = (\<lambda>root base fs. Inr ''PK''),
      open_fault = (\<lambda>fs p. if 255 < length (os_path_basename p) then Some OSError else None)\<rparr>"

definition example_world :: "recv_event list \<Rightarrow> world" where
  "example_world evs =
     \<lparr>st = example_backend, files = Map.empty,
      sock = \<lparr>incoming = evs, send_faults = []\<rparr>, filepath = [], trace = []\<rparr>"

text \<open>The same world with a file and a directory in the share directory.\<close>

definition example_share_world :: "recv_event list \<Rightarrow> world" where
  "example_share_world evs =
     (example_world evs)
       \<lparr>files := [''/app/sharable/a.txt'' \<mapsto> File ''hello'',
                  ''/app/sharable/docs'' \<mapsto> Dir]\<rparr>"

section \<open>Properties of the peer registry\<close>

lemma map_of_fold_delete:
  "map_of (fold AList.delete ks al) k = (if k \<in> set ks then None else map_of al k)"
  by (induction ks arbitrary: al) (auto simp: AList.delete_conv')

lemma stale_peers_iff:
  "distinct (map fst ps) \<Longrightarrow>
   k \<in> set (stale_peers t ps) \<longleftrightarrow>
     (\<exists>info. map_of ps k = Some info \<and> t - last_seen info > PEER_TIMEOUT \<and> \<not> qr_connected info)"
  by (auto simp: stale_peers_def image_iff)

text \<open>
  C4.  One eviction sweep at clock reading \<open>t\<close> removes an entry of the registry if and
  only if \<open>t\<close> minus its last-seen time exceeds \<open>PEER_TIMEOUT\<close> and it is not pinned
  (\<open>qr_connected\<close>); an entry that stays is unchanged, and a pinned entry always stays.
\<close>

theorem cleanup_stale_peers_removes_iff:
  assumes "distinct (map fst (peers s))"
    and "map_of (peers s) k = Some info"
  shows "(map_of (peers (fst (cleanup_stale_peers t s))) k = None
            \<longleftrightarrow> (t - last_seen info > PEER_TIMEOUT \<and> \<not> qr_connected info))
         \<and> (map_of (peers (fst (cleanup_stale_peers t s))) k \<noteq> None
            \<longrightarrow> map_of (peers (fst (cleanup_stale_peers t s))) k = Some info)
         \<and> (qr_connected info
            \<longrightarrow> map_of (peers (fst (cleanup_stale_peers t s))) k = Some info)"
  using assms
  by (simp add: cleanup_stale_peers_def Let_def map_of_fold_delete stale_peers_iff)

theorem cleanup_stale_peers_removes_iff_witness:
  "map_of (peers (fst (cleanup_stale_peers 100 example_backend))) (KStr ''old'') = None
   \<and> map_of (peers (fst (cleanup_stale_peers 100 example_backend))) (KStr ''paired'')
       = Some \<lparr>ip = JStr ''10.0.0.3'', last_seen = 10,
               device_type = JStr ''android'', qr_connected = True\<rparr>
   \<and> map_of (peers (fst (cleanup_stale_peers 100 example_backend))) (KStr ''fresh'')
       = Some \<lparr>ip = JStr ''10.0.0.4'', last_seen = 90,
               device_type = JStr ''desktop'', qr_connected = False\<rparr>"
proof -
  have d: "distinct (map fst (peers example_backend))"
    by (simp add: example_backend_def)
  have old: "map_of (peers example_backend) (KStr ''old'')
      = Some \<lparr>ip = JStr ''10.0.0.2'', last_seen = 10,
              device_type = JStr ''desktop'', qr_connected = False\<rparr>"
    by (simp add: example_backend_def)
  have paired: "map_of (peers example_backend) (KStr ''paired'')
      = Some \<lparr>ip = JStr ''10.0.0.3'', last_seen = 10,
              device_type = JStr ''android'', qr_connected = True\<rparr>"
    by (simp add: example_backend_def)
  have fresh: "map_of (peers example_backend) (KStr ''fresh'')
      = Some \<lparr>ip = JStr ''10.0.0.4'', last_seen = 90,
              device_type = JStr ''desktop'', qr_connected = False\<rparr>"
    by (simp add: example_backend_def)
  have "map_of (peers (fst (cleanup_stale_peers 100 example_backend))) (KStr ''old'') = None"
    using cleanup_stale_peers_removes_iff [OF d old, of 100, THEN conjunct1]
    by (simp add: PEER_TIMEOUT_def)
  moreover
  have "map_of (peers (fst (cleanup_stale_peers 100 example_backend))) (KStr ''paired'')
       = Some \<lparr>ip = JStr ''10.0.0.3'', last_seen = 10,
               device_type = JStr ''android'', qr_connected = True\<rparr>"
    using cleanup_stale_peers_removes_iff [OF d paired, of 100, THEN conjunct2, THEN conjunct2]
    by simp
  moreover
  have "map_of (peers (fst (cleanup_stale_peers 100 example_backend))) (KStr ''fresh'')
       = Some \<lparr>ip = JStr ''10.0.0.4'', last_seen = 90,
               device_type = JStr ''desktop'', qr_connected = False\<rparr>"
    using cleanup_stale_peers_removes_iff [OF d fresh, of 100]
    by (cases "map_of (peers (fst (cleanup_stale_peers 100 example_backend))) (KStr ''fresh'')")
       (simp_all add: PEER_TIMEOUT_def)
  ultimately show ?thesis by simp
qed

subsection \<open>Discovery upserts\<close>

lemma listen_upsert_eq:
  "listen_upsert now nick pip dev s =
     (case hash_key nick of
        None \<Rightarrow> Inl TypeError
      | Some k \<Rightarrow>
          Inr (s\<lparr>peers := AList.update k
                    \<lparr>ip = pip, last_seen = now, device_type = dev,
                     qr_connected = stored_qr_flag (peers s) k\<rparr> (peers s)\<rparr>,
               if map_of (peers s) k = None then [DiscoveredPeer nick dev pip] else []))"
  by (simp add: listen_upsert_def Let_def split: option.splits)

lemma listen_body_cases:
  "listen_body ld now d s = Inr (s', l) \<Longrightarrow>
     s' = s \<or> (\<exists>msg nick k. ld d = Inr msg
                 \<and> py_get msg ''magic'' JNull = Inr (JStr BROADCAST_MAGIC)
                 \<and> py_get msg ''nickname'' JNull = Inr nick
                 \<and> nick \<noteq> JStr (nickname s)
                 \<and> hash_key nick = Some k
                 \<and> s' = s\<lparr>peers := AList.update k
                            \<lparr>ip = dict_get msg ''ip'' JNull, last_seen = now,
                             device_type = dict_get msg ''device_type'' (JStr ''unknown''),
                             qr_connected = stored_qr_flag (peers s) k\<rparr> (peers s)\<rparr>)"
  by (auto simp: listen_body_def listen_upsert_eq dict_get_def
           split: sum.splits if_splits option.splits)

lemma listen_step_cases:
  "fst (listen_step ld now ev s) = s \<or>
     (\<exists>d msg nick k. ev = Datagram d \<and> ld d = Inr msg
         \<and> py_get msg ''magic'' JNull = Inr (JStr BROADCAST_MAGIC)
         \<and> py_get msg ''nickname'' JNull = Inr nick
         \<and> nick \<noteq> JStr (nickname s)
         \<and> hash_key nick = Some k
         \<and> fst (listen_step ld now ev s) = s\<lparr>peers := AList.update k
                    \<lparr>ip = dict_get msg ''ip'' JNull, last_seen = now,
                     device_type = dict_get msg ''device_type'' (JStr ''unknown''),
                     qr_connected = stored_qr_flag (peers s) k\<rparr> (peers s)\<rparr>)"
proof (cases ev)
  case RecvfromTimeout
  then show ?thesis by (simp add: listen_step_def)
next
  case (Datagram d)
  show ?thesis
  proof (cases "listen_body ld now d s")
    case (Inl e)
    then show ?thesis using Datagram
      by (cases e) (simp_all add: listen_step_def)
  next
    case (Inr r)
    obtain s' l where r: "r = (s', l)" by (cases r)
    from listen_body_cases[OF Inr[unfolded r]] show ?thesis
      using Datagram Inr r by (auto simp: listen_step_def)
  qed
qed















lemma listen_step_ignores:
  "(ld d = Inl e \<longrightarrow> fst (listen_step ld now (Datagram d) s) = s)
   \<and> (ld d = Inr msg \<and> py_get msg ''magic'' JNull \<noteq> Inr (JStr BROADCAST_MAGIC)
        \<longrightarrow> fst (listen_step ld now (Datagram d) s) = s)
   \<and> (ld d = Inr msg \<and> py_get msg ''nickname'' JNull = Inr (JStr (nickname s))
        \<longrightarrow> fst (listen_step ld now (Datagram d) s) = s)"
  using listen_step_cases [of ld now "Datagram d" s] by auto

text \<open>
  C7 (as the program behaves).  The listener does leave the backend alone on a
  datagram that does not decode, that has no or another magic string, or that
  carries our own nickname (the lemma above).  But a datagram with the right magic
  string and no nickname at all is not dropped: \<open>message.get("nickname")\<close> is
  \<open>None\<close>, which differs from our nickname, so a peer is registered under the key
  \<open>None\<close>, unpinned, with the announced address.
\<close>

theorem nameless_announcement_is_registered:
  "peers (fst (listen_step example_loads 50 (Datagram ''announce-nameless'') example_backend))
     = peers example_backend
       @ [(KNone, \<lparr>ip = JStr ''10.0.0.7'', last_seen = 50,
                   device_type = JStr ''unknown'', qr_connected = False\<rparr>)]"
  by (simp add: listen_step_def listen_body_def listen_upsert_def stored_qr_flag_def
        example_loads_def example_backend_def Let_def)

section \<open>Properties of the file transfer server\<close>

lemma emit_simps [simp]:
  "st (emit e w) = st w"
  "files (emit e w) = files w"
  "sock (emit e w) = sock w"
  "filepath (emit e w) = filepath w"
  "trace (emit e w) = trace w @ [e]"
  by (simp_all add: emit_def)

lemma sendall_Inr:
  "sendall bs w = Inr w' \<Longrightarrow>
     st w' = st w \<and> files w' = files w \<and> filepath w' = filepath w
     \<and> incoming (sock w') = incoming (sock w) \<and> trace w' = trace w @ [Sent bs]"
  by (auto simp: sendall_def split: list.splits option.splits)

lemma unpack_received_st: "st (snd (unpack_received E fn w)) = st w"
  by (simp add: unpack_received_def split: prod.splits sum.splits)

lemma receive_file_st: "receive_file fsz rd fs1 w = (err, rb, w') \<Longrightarrow> st w' = st w"
  by (auto simp: receive_file_def split: option.splits prod.splits)

lemma receive_complete_st: "st (snd (receive_complete E fn fsz ty rb w)) = st w"
  by (simp add: receive_complete_def unpack_received_st)

lemma receive_accepted_st: "st (snd (receive_accepted E md rd w)) = st w"
proof (cases "sendall ACCEPT_LINE w")
  case (Inl e)
  then show ?thesis by (simp add: receive_accepted_def)
next
  case (Inr w1)
  note s = sendall_Inr [OF Inr]
  show ?thesis
  proof (cases "basename_of (py_index md ''filename'')")
    case (Inl e)
    then show ?thesis using s by (simp add: receive_accepted_def Inr)
  next
    case fn: (Inr filename)
    show ?thesis
    proof (cases "open_wb (open_fault E) (files w1) (os_path_join (DOWNLOAD_DIR E) filename)")
      case (Inl e)
      then show ?thesis using s by (simp add: receive_accepted_def Inr fn)
    next
      case opn: (Inr fs1)
      obtain err rb w2 where rf: "receive_file (py_index md ''filesize'') rd fs1
                            ((emit (ReceiveActive True) w1)
                               \<lparr>filepath := os_path_join (DOWNLOAD_DIR E) filename\<rparr>) = (err, rb, w2)"
        by (metis prod_cases3)
      from receive_file_st [OF rf] have "st w2 = st w" using s by simp
      then show ?thesis
        by (cases err) (simp_all add: receive_accepted_def Inr fn opn rf receive_complete_st)
    qed
  qed
qed

lemma qr_handshake_branch_active:
  "active_transfers (st (snd (qr_handshake_branch E now addr md w))) = active_transfers (st w)"
  by (auto simp: qr_handshake_branch_def dest!: sendall_Inr split: sum.splits option.splits)

lemma receive_request_st: "st (snd (receive_request E md rd w)) = st w"
  by (auto simp: receive_request_def receive_accepted_st dest!: sendall_Inr split: sum.splits)

lemma receive_metadata_active:
  "active_transfers (st (snd (receive_metadata E now addr mb rd w))) = active_transfers (st w)"
  by (simp add: receive_metadata_def qr_handshake_branch_active receive_request_st
      split: sum.splits)

lemma receive_body_active:
  "active_transfers (st (snd (receive_body E now addr w))) = active_transfers (st w)"
  by (simp add: receive_body_def receive_metadata_active split: prod.splits header_read.splits)

lemma receive_except_st: "st (receive_except e w) = st w"
  by (simp add: receive_except_def split: sum.splits)

lemma receive_try_active:
  "active_transfers (st (receive_try E now addr w)) = active_transfers (st w)"
  using receive_body_active [of E now addr w]
  by (cases "receive_body E now addr w"; cases "fst (receive_body E now addr w)")
     (simp_all add: receive_try_def receive_except_st)

lemma recv_stream:
  "recv k c = Inr (chunk, c') \<Longrightarrow> stream c = chunk @ stream c'"
  by (induction k c rule: recv.induct) (auto split: if_splits)



lemma split_first_newline:
  assumes "NL \<in> set xs"
  shows "xs = takeWhile (\<lambda>b. b \<noteq> NL) xs @ NL # tl (dropWhile (\<lambda>b. b \<noteq> NL) xs)"
    and "NL \<notin> set (takeWhile (\<lambda>b. b \<noteq> NL) xs)"
proof -
  from assms have "dropWhile (\<lambda>b. b \<noteq> NL) xs \<noteq> []" by simp
  moreover have "hd (dropWhile (\<lambda>b. b \<noteq> NL) xs) = NL"
    using assms hd_dropWhile [of "\<lambda>b. b \<noteq> NL" xs] by simp
  ultimately have "dropWhile (\<lambda>b. b \<noteq> NL) xs = NL # tl (dropWhile (\<lambda>b. b \<noteq> NL) xs)"
    by (metis list.collapse)
  then show "xs = takeWhile (\<lambda>b. b \<noteq> NL) xs @ NL # tl (dropWhile (\<lambda>b. b \<noteq> NL) xs)"
    by (metis takeWhile_dropWhile_id)
  show "NL \<notin> set (takeWhile (\<lambda>b. b \<noteq> NL) xs)"
    by (auto dest: set_takeWhileD)
qed

lemma read_header_split:
  "read_header run acc c = (HeaderSplit h rd, c') \<Longrightarrow> NL \<notin> set acc \<Longrightarrow>
     NL \<notin> set h \<and> acc @ stream c = h @ NL # rd @ stream c'"
proof (induction run acc c rule: read_header.induct)
  case (1 run metadata_bytes c)
  note unf = read_header.simps [of _ metadata_bytes c]
  from "1.prems"(1) have run: run by (auto simp: unf split: if_splits)
  from "1.prems"(1) run obtain chunk c1 where r: "recv 1024 c = Inr (chunk, c1)"
    by (cases "recv 1024 c") (auto simp: unf)
  from "1.prems"(1) run r have ne: "chunk \<noteq> []" by (auto simp: unf split: if_splits)
  note s = recv_stream [OF r]
  show ?case
  proof (cases "NL \<in> set (metadata_bytes @ chunk)")
    case True
    with "1.prems"(1) run r ne
    have h: "h = takeWhile (\<lambda>b. b \<noteq> NL) (metadata_bytes @ chunk)"
      and rd: "rd = tl (dropWhile (\<lambda>b. b \<noteq> NL) (metadata_bytes @ chunk))"
      and c': "c' = c1"
      by (auto simp: unf split: if_splits)
    from split_first_newline [OF True] show ?thesis
      unfolding h rd c' s by (metis append.assoc append_Cons)
  next
    case False
    with "1.prems"(1) run r ne
    have rec: "read_header run (metadata_bytes @ chunk) c1 = (HeaderSplit h rd, c')"
      by (auto simp: unf split: if_splits)
    from "1.IH" [OF _ r refl ne False rec] run False
    show ?thesis unfolding s by simp
  qed
qed






lemma pending_append: "pending (a @ b) = pending a + pending b"
  by (induction a rule: pending.induct) simp_all







lemma sendall_ok: "send_faults (sock w) = [] \<Longrightarrow> sendall bs w = Inr (emit (Sent bs) w)"
  by (simp add: sendall_def)






lemma example_open:
  "open_wb (open_fault example_env) Map.empty ''/app/downloads/a.txt''
     = Inr (Map.empty(''/app/downloads/a.txt'' \<mapsto> File []))"
  by (simp add: open_wb_def example_env_def os_path_basename_def)



lemma example_dest:
  "os_path_join (DOWNLOAD_DIR example_env) (os_path_basename ''../up/a.txt'')
     = ''/app/downloads/a.txt''"
  by (simp add: example_env_def os_path_join_def os_path_basename_def)


lemma receive_except_trace: "trace (receive_except e w) = trace w @ [Log (ReceiveFailed e)]"
  by (simp add: receive_except_def split: sum.splits)

lemma receive_finally_simps:
  "trace (receive_finally tid w) = trace w @ [ReceiveActive False]"
  "files (receive_finally tid w) = files w"
  by (simp_all add: receive_finally_def)

lemma register_transfer_simps:
  "running (st (register_transfer tid h w)) = running (st w)"
  "sock (register_transfer tid h w) = sock w"
  "files (register_transfer tid h w) = files w"
  "trace (register_transfer tid h w) = trace w"
  by (simp_all add: register_transfer_def)













lemma rh_unterminated:
  "read_header True [] [Data example_header] = (HeaderUnterminated example_header, [])"
  by (simp add: read_header.simps example_header_def)

text \<open>
  C3 (as the program behaves).  A connection that delivers the bytes of a decodable
  header and closes before any newline: the handler does not drop it.  It asks the
  user, answers \<open>ACCEPT\<close>, creates the destination file, then fails on the unassigned
  \<open>remaining_data\<close> and removes the file again.
\<close>

theorem unterminated_header_is_answered:
  "trace (handle_item_receive example_env 0 ''t1'' 7 ''10.0.0.2''
            (example_world [Data example_header]))
     = [Log (ReceivedMetadata example_metadata), TransferRequest example_metadata,
        Sent ACCEPT_LINE, ReceiveActive True, Wrote ''/app/downloads/a.txt'' [],
        Log (ReceiveFailed UnboundLocalError), ReceiveActive False]"
proof -
  let ?w1 = "register_transfer ''t1'' 7 (example_world [Data example_header])"
  let ?wA = "?w1\<lparr>sock := (sock ?w1)\<lparr>incoming := []\<rparr>\<rparr>"
  let ?w0 = "emit (TransferRequest example_metadata) (emit (Log (ReceivedMetadata example_metadata)) ?wA)"
  have b: "receive_body example_env 0 ''10.0.0.2'' ?w1
          = receive_metadata example_env 0 ''10.0.0.2'' example_header None ?wA"
    by (simp add: receive_body_def register_transfer_def example_world_def example_backend_def
          rh_unterminated)
  have m: "receive_metadata example_env 0 ''10.0.0.2'' example_header None ?wA
          = receive_accepted example_env example_metadata None ?w0"
    by (simp add: receive_metadata_def receive_request_def example_env_def example_decode_def
          example_metadata_def example_header_def)
  have a: "receive_accepted example_env example_metadata None ?w0
          = (Some UnboundLocalError,
             emit (Wrote ''/app/downloads/a.txt'' [])
               ((emit (ReceiveActive True) (emit (Sent ACCEPT_LINE) ?w0))
                  \<lparr>filepath := ''/app/downloads/a.txt'',
                    files := Map.empty(''/app/downloads/a.txt'' \<mapsto> File [])\<rparr>))"
    by (simp add: receive_accepted_def sendall_def register_transfer_def example_world_def
          example_metadata_def py_index_def dict_get_def example_dest example_open
          receive_file_def)
  let ?w3 = "emit (Wrote ''/app/downloads/a.txt'' [])
               ((emit (ReceiveActive True) (emit (Sent ACCEPT_LINE) ?w0))
                  \<lparr>filepath := ''/app/downloads/a.txt'',
                    files := Map.empty(''/app/downloads/a.txt'' \<mapsto> File [])\<rparr>)"
  have body: "receive_body example_env 0 ''10.0.0.2'' ?w1 = (Some UnboundLocalError, ?w3)"
    unfolding b m a ..
  have t: "receive_try example_env 0 ''10.0.0.2'' ?w1 = receive_except UnboundLocalError ?w3"
    by (simp add: receive_try_def body)
  have "trace (handle_item_receive example_env 0 ''t1'' 7 ''10.0.0.2''
            (example_world [Data example_header]))
          = trace ?w3 @ [Log (ReceiveFailed UnboundLocalError), ReceiveActive False]"
    unfolding handle_item_receive_def t
    by (simp add: receive_finally_simps receive_except_trace)
  also have "trace ?w3 = [Log (ReceivedMetadata example_metadata),
        TransferRequest example_metadata, Sent ACCEPT_LINE, ReceiveActive True,
        Wrote ''/app/downloads/a.txt'' []]"
    by (simp add: register_transfer_simps example_world_def)
  finally show ?thesis by simp
qed

text \<open>
  C9.  The handler is the registration of the transfer identifier, then the body under
  \<open>try\<close>, then the \<open>finally\<close> clause.  The entry is in the table, and nothing has
  been read from the connection, when the body starts; whatever the connection
  delivers and however the body ends, the identifier is not in the table when the
  handler returns, and every other entry of the table is as it was.
\<close>

theorem transfer_entry_registered_then_removed:
  "handle_item_receive E now transfer_id handle addr w
     = receive_finally transfer_id
         (receive_try E now addr (register_transfer transfer_id handle w))
   \<and> map_of (active_transfers (st (register_transfer transfer_id handle w))) transfer_id
       = Some \<lparr>cancel = False, socket = handle\<rparr>
   \<and> incoming (sock (register_transfer transfer_id handle w)) = incoming (sock w)
   \<and> map_of (active_transfers (st (handle_item_receive E now transfer_id handle addr w)))
         transfer_id = None
   \<and> (\<forall>other. other \<noteq> transfer_id \<longrightarrow>
         map_of (active_transfers (st (handle_item_receive E now transfer_id handle addr w)))
           other = map_of (active_transfers (st w)) other)"
  by (simp add: handle_item_receive_def receive_finally_def receive_try_active
      register_transfer_def AList.update_conv' AList.delete_conv')

theorem transfer_entry_registered_then_removed_witness:
  "map_of (active_transfers (st (handle_item_receive example_env 0 ''t1'' 7 ''10.0.0.2''
       ((example_world [Data ''garbage''])
          \<lparr>st := example_backend
                  \<lparr>active_transfers := [(''t0'', \<lparr>cancel = False, socket = 3\<rparr>)]\<rparr>\<rparr>))))
     ''t1'' = None
   \<and> map_of (active_transfers (st (handle_item_receive example_env 0 ''t1'' 7 ''10.0.0.2''
       ((example_world [Data ''garbage''])
          \<lparr>st := example_backend
                  \<lparr>active_transfers := [(''t0'', \<lparr>cancel = False, socket = 3\<rparr>)]\<rparr>\<rparr>))))
     ''t0'' = Some \<lparr>cancel = False, socket = 3\<rparr>"
proof -
  let ?w = "(example_world [Data ''garbage''])
          \<lparr>st := example_backend
                  \<lparr>active_transfers := [(''t0'', \<lparr>cancel = False, socket = 3\<rparr>)]\<rparr>\<rparr>"
  note inst = transfer_entry_registered_then_removed
    [of example_env 0 "''t1''" 7 "''10.0.0.2''" ?w]
  have other: "''t0'' \<noteq> ''t1''" by simp
  have before: "map_of (active_transfers (st ?w)) ''t0'' = Some \<lparr>cancel = False, socket = 3\<rparr>"
    by simp
  from inst [THEN conjunct2, THEN conjunct2, THEN conjunct2, THEN conjunct1]
    inst [THEN conjunct2, THEN conjunct2, THEN conjunct2, THEN conjunct2, THEN spec,
          THEN mp, OF other]
  show ?thesis unfolding before by blast
qed

section \<open>Properties of the file transfer client\<close>

lemma get_peer_dict_lookup:
  "map_of (get_peer_dict s) k = map_option ip (map_of (peers s) k)"
  by (simp add: get_peer_dict_def map_of_map)

text \<open>
  C6.  Sending to a nickname that is not a key of the peer registry: the only thing
  \<open>send_item\<close> does is log that the peer was not found.  No connection is attempted and
  nothing is sent; the backend state (with the registry), the filesystem and the
  socket are as before.
\<close>

theorem send_item_peer_not_found:
  assumes "map_of (peers (st w)) peer_nickname = None"
  shows "send_item E connect_fault peer_nickname item_name w
           = emit (Log (PeerNotFound peer_nickname)) w
       \<and> st (send_item E connect_fault peer_nickname item_name w) = st w
       \<and> files (send_item E connect_fault peer_nickname item_name w) = files w
       \<and> sock (send_item E connect_fault peer_nickname item_name w) = sock w
       \<and> trace (send_item E connect_fault peer_nickname item_name w)
           = trace w @ [Log (PeerNotFound peer_nickname)]"
  using assms by (simp add: send_item_def get_peer_dict_lookup)

theorem send_item_peer_not_found_witness:
  "st (send_item example_env None (KStr ''nobody'') ''a.txt'' (example_share_world []))
     = example_backend
   \<and> files (send_item example_env None (KStr ''nobody'') ''a.txt'' (example_share_world []))
     = files (example_share_world [])
   \<and> trace (send_item example_env None (KStr ''nobody'') ''a.txt'' (example_share_world []))
     = [Log (PeerNotFound (KStr ''nobody''))]"
proof -
  have absent: "map_of (peers (st (example_share_world []))) (KStr ''nobody'') = None"
    by (simp add: example_share_world_def example_world_def example_backend_def)
  note inst = send_item_peer_not_found
    [OF absent, of example_env None "''a.txt''"]
  have s: "st (example_share_world []) = example_backend"
    and t: "trace (example_share_world []) = []"
    by (simp_all add: example_share_world_def example_world_def)
  show ?thesis using inst s t by simp
qed

lemma readline_first_line:
  "NL \<in> set (stream c) \<or> only_data c \<Longrightarrow> readline c = Inr (first_line (stream c))"
proof (induction c rule: readline.induct)
  case 1
  show ?case by (simp add: first_line_def)
next
  case (2 e rest)
  then show ?case by simp
next
  case (3 bs rest)
  show ?case
  proof (cases "NL \<in> set bs")
    case True
    then show ?thesis by (simp add: first_line_def takeWhile_append1)
  next
    case False
    from "3.prems" False have "NL \<in> set (stream rest) \<or> only_data rest" by simp
    moreover have "takeWhile (\<lambda>b. b \<noteq> NL) (bs @ ys) = bs @ takeWhile (\<lambda>b. b \<noteq> NL) ys" for ys
      using False by (intro takeWhile_append2) auto
    ultimately show ?thesis using "3.IH" [OF False] False
      by (simp add: first_line_def)
  qed
qed

lemma send_connection_rejected:
  assumes "files w0 p = Some (File content)"
    and "send_faults (sock w0) = []"
    and "readline (incoming (sock w0)) = Inr response"
    and "bytes_strip response \<noteq> ''ACCEPT''"
  shows "send_connection E None nick (JStr a) item p ty w0
           = (None,
              emit (Log (TransferRejectedBy nick))
                (emit (Sent (dumps E (send_metadata (st w0) (os_path_basename p)
                                        (length content) ty) @ [NL]))
                   (emit (Connected (JStr a)) (emit (Log (ConnectingTo nick (JStr a))) w0))))"
  using assms by (simp add: send_connection_def Let_def sendall_ok)

text \<open>
  C10.  An outbound attempt that gets as far as the decision reply: the peer is
  registered with an address, the connection is made and the header line is sent.
  The reply stream carries a newline before any failing read, or the peer closes it
  without one.  If its first line, stripped of ASCII whitespace, is anything but
  \<open>ACCEPT\<close> (also the empty line of a closed connection), the client logs the
  rejection and returns through the \<open>finally\<close> clause.  The header line is all it ever
  sent, no failure is logged, and the filesystem is as before (a directory's
  temporary archive is removed again).
\<close>

theorem send_item_rejected_without_payload:
  assumes peer: "map_of (peers (st w)) peer_nickname = Some info" "ip info = JStr a"
    and sf: "send_faults (sock w) = []"
    and reply: "NL \<in> set (stream (incoming (sock w))) \<or> only_data (incoming (sock w))"
    and no: "bytes_strip (first_line (stream (incoming (sock w)))) \<noteq> ''ACCEPT''"
  shows "(files w (os_path_join (SHARE_DIR E) item_name) = Some (File content) \<longrightarrow>
            trace (send_item E None peer_nickname item_name w)
              = trace w @
                  [Log (ConnectingTo peer_nickname (JStr a)), Connected (JStr a),
                   Sent (dumps E (send_metadata (st w)
                                    (os_path_basename (os_path_join (SHARE_DIR E) item_name))
                                    (length content) ''file'') @ [NL]),
                   Log (TransferRejectedBy peer_nickname), SendActive False]
            \<and> files (send_item E None peer_nickname item_name w) = files w)
       \<and> (files w (os_path_join (SHARE_DIR E) item_name) = Some Dir
            \<and> make_archive E (SHARE_DIR E) item_name (files w) = Inr archive \<longrightarrow>
            trace (send_item E None peer_nickname item_name w)
              = trace w @
                  [Log (ConnectingTo peer_nickname (JStr a)), Connected (JStr a),
                   Sent (dumps E (send_metadata (st w)
                                    (os_path_basename (os_path_join (TEMP_DIR E) item_name @ ''.zip''))
                                    (length archive) ''directory'') @ [NL]),
                   Log (TransferRejectedBy peer_nickname), SendActive False]
            \<and> files (send_item E None peer_nickname item_name w)
                = (files w)(os_path_join (TEMP_DIR E) item_name @ ''.zip'' := None))"
proof (intro conjI impI)
  have look: "map_of (get_peer_dict (st w)) peer_nickname = Some (JStr a)"
    using peer by (simp add: get_peer_dict_lookup)
  note rl = readline_first_line [OF reply]
  {
    assume f: "files w (os_path_join (SHARE_DIR E) item_name) = Some (File content)"
    note c = send_connection_rejected [OF f sf rl no, of E peer_nickname a item_name "''file''"]
    have "send_item E None peer_nickname item_name w
            = send_finally None (send_except peer_nickname item_name
                (send_connection E None peer_nickname (JStr a) item_name
                   (os_path_join (SHARE_DIR E) item_name) ''file'' w))"
      using f by (simp add: send_item_def look os_path_exists_def)
    then show "trace (send_item E None peer_nickname item_name w)
              = trace w @
                  [Log (ConnectingTo peer_nickname (JStr a)), Connected (JStr a),
                   Sent (dumps E (send_metadata (st w)
                                    (os_path_basename (os_path_join (SHARE_DIR E) item_name))
                                    (length content) ''file'') @ [NL]),
                   Log (TransferRejectedBy peer_nickname), SendActive False]"
      and "files (send_item E None peer_nickname item_name w) = files w"
      unfolding c by (simp_all add: send_except_def send_finally_def)
  }
  {
    assume d: "files w (os_path_join (SHARE_DIR E) item_name) = Some Dir
            \<and> make_archive E (SHARE_DIR E) item_name (files w) = Inr archive"
    let ?tz = "os_path_join (TEMP_DIR E) item_name @ ''.zip''"
    let ?w1 = "w\<lparr>files := (files w)(?tz \<mapsto> File archive)\<rparr>"
    have f1: "files ?w1 ?tz = Some (File archive)" by simp
    have sf1: "send_faults (sock ?w1) = []" using sf by simp
    have r1: "readline (incoming (sock ?w1)) = Inr (first_line (stream (incoming (sock w))))"
      using rl by simp
    note c = send_connection_rejected [OF f1 sf1 r1 no, of E peer_nickname a item_name "''directory''"]
    have "send_item E None peer_nickname item_name w
            = send_finally (Some ?tz) (send_except peer_nickname item_name
                (send_connection E None peer_nickname (JStr a) item_name ?tz ''directory'' ?w1))"
      using d by (simp add: send_item_def look os_path_exists_def Let_def)
    then show "trace (send_item E None peer_nickname item_name w)
              = trace w @
                  [Log (ConnectingTo peer_nickname (JStr a)), Connected (JStr a),
                   Sent (dumps E (send_metadata (st w) (os_path_basename ?tz)
                                    (length archive) ''directory'') @ [NL]),
                   Log (TransferRejectedBy peer_nickname), SendActive False]"
      and "files (send_item E None peer_nickname item_name w) = (files w)(?tz := None)"
      unfolding c
      by (simp_all add: send_except_def send_finally_def os_path_exists_def os_remove_def)
  }
qed

theorem send_item_rejected_without_payload_witness:
  "trace (send_item example_env None (KStr ''fresh'') ''a.txt''
            (example_share_world [Data ''REJ'', Data (''ECT'' @ [NL])]))
     = [Log (ConnectingTo (KStr ''fresh'') (JStr ''10.0.0.4'')), Connected (JStr ''10.0.0.4''),
        Sent (''{json}'' @ [NL]), Log (TransferRejectedBy (KStr ''fresh'')), SendActive False]
   \<and> files (send_item example_env None (KStr ''fresh'') ''a.txt''
            (example_share_world [Data ''REJ'', Data (''ECT'' @ [NL])]))
     = files (example_share_world [Data ''REJ'', Data (''ECT'' @ [NL])])
   \<and> trace (send_item example_env None (KStr ''fresh'') ''docs'' (example_share_world []))
     = [Log (ConnectingTo (KStr ''fresh'') (JStr ''10.0.0.4'')), Connected (JStr ''10.0.0.4''),
        Sent (''{json}'' @ [NL]), Log (TransferRejectedBy (KStr ''fresh'')), SendActive False]
   \<and> files (send_item example_env None (KStr ''fresh'') ''docs'' (example_share_world []))
     = files (example_share_world [])"
proof -
  let ?r = "[Data ''REJ'', Data (''ECT'' @ [NL])]"
  let ?info = "\<lparr>ip = JStr ''10.0.0.4'', last_seen = 90,
                 device_type = JStr ''desktop'', qr_connected = False\<rparr>"
  have peer: "map_of (peers (st (example_share_world evs))) (KStr ''fresh'') = Some ?info" for evs
    by (simp add: example_share_world_def example_world_def example_backend_def)
  have ipa: "ip ?info = JStr ''10.0.0.4''" by simp
  have sf: "send_faults (sock (example_share_world evs)) = []" for evs
    by (simp add: example_share_world_def example_world_def)
  have inc: "incoming (sock (example_share_world evs)) = evs" for evs
    by (simp add: example_share_world_def example_world_def)
  have tr: "trace (example_share_world evs) = []" for evs
    by (simp add: example_share_world_def example_world_def)
  have reply1: "NL \<in> set (stream (incoming (sock (example_share_world ?r))))
                  \<or> only_data (incoming (sock (example_share_world ?r)))"
    unfolding inc by simp
  have no1: "bytes_strip (first_line (stream (incoming (sock (example_share_world ?r)))))
               \<noteq> ''ACCEPT''"
    unfolding inc by (simp add: first_line_def bytes_strip_def is_space_def)
  have reply2: "NL \<in> set (stream (incoming (sock (example_share_world []))))
                  \<or> only_data (incoming (sock (example_share_world [])))"
    unfolding inc by simp
  have no2: "bytes_strip (first_line (stream (incoming (sock (example_share_world [])))))
               \<noteq> ''ACCEPT''"
    unfolding inc by (simp add: first_line_def bytes_strip_def)
  have f: "files (example_share_world ?r) (os_path_join (SHARE_DIR example_env) ''a.txt'')
             = Some (File ''hello'')"
    by (simp add: example_share_world_def example_world_def example_env_def os_path_join_def)
  have d: "files (example_share_world []) (os_path_join (SHARE_DIR example_env) ''docs'') = Some Dir
            \<and> make_archive example_env (SHARE_DIR example_env) ''docs''
                 (files (example_share_world [])) = Inr ''PK''"
    by (simp add: example_share_world_def example_world_def example_env_def os_path_join_def)
  have du: "dumps example_env j = ''{json}''" for j by (simp add: example_env_def)
  have tz: "(files (example_share_world []))
              (os_path_join (TEMP_DIR example_env) ''docs'' @ ''.zip'' := None)
              = files (example_share_world [])"
    by (simp add: example_share_world_def example_world_def example_env_def os_path_join_def
          fun_eq_iff)
  note i1 = send_item_rejected_without_payload
    [OF peer ipa sf reply1 no1, where E = example_env and item_name = "''a.txt''"
       and content = "''hello''", THEN conjunct1, THEN mp, OF f]
  note i2 = send_item_rejected_without_payload
    [OF peer ipa sf reply2 no2, where E = example_env and item_name = "''docs''"
       and archive = "''PK''", THEN conjunct2, THEN mp, OF d]
  show ?thesis using i1 i2 by (simp add: tr du tz)
qed

section \<open>Properties of the QR pairing listener\<close>





end
